theory Spec2Isabelle
  imports Complex_Main
begin

section \<open>Modulaire Kunst Studio: document model, history and snap transform\<close>

text \<open>
  A shallow embedding of the state handling of \<^verbatim>\<open>src/ModulaireKunstStudio.tsx\<close>.
  The React component keeps its state in \<^verbatim>\<open>useState\<close> cells. An event handler is a
  closure of the render that created it: it reads the cells as they were in that render
  and queues updates, which are committed together and give the next render. A handler
  attached to a button always comes from the latest render, and is a function from the
  state before the event to the state after it. The \<^verbatim>\<open>keydown\<close> listener is
  registered by an effect and can come from an older render; it is modelled with the two
  states apart.

  JavaScript numbers are modelled as real numbers: \<^verbatim>\<open>Math.round\<close> is rounding half up,
  \<^verbatim>\<open>Math.min\<close> and \<^verbatim>\<open>Math.max\<close> are \<open>min\<close> and \<open>max\<close>. Rounding errors of
  IEEE doubles, \<^verbatim>\<open>NaN\<close> and the infinities are outside the model.
  \<^verbatim>\<open>structuredClone\<close> is the identity, since HOL values are never mutated in place.
\<close>

subsection \<open>Data model\<close>

type_synonym number = real

record Asset =
  id_asset :: string
  name :: string
  dataUrl :: string

record Piece =
  id_piece :: string
  assetId :: string
  x :: number
  y :: number
  width :: number
  height :: number
  hue :: number
  saturate :: number
  brightness :: number
  contrast :: number
  opacity :: number
  z :: number

record Project =
  assets :: "Asset list"
  pieces :: "Piece list"

text \<open>
  The component state: the two document cells \<^verbatim>\<open>assets\<close> and \<^verbatim>\<open>pieces\<close> (the fields
  of a \<^verbatim>\<open>Project\<close>), the selection, the two stacks and the snap switch.
\<close>

record Studio = Project +
  selectedId :: "string option"
  history :: "Project list"
  future :: "Project list"
  snapEnabled :: bool

definition initial :: Studio where
  "initial = \<lparr>assets = [], pieces = [], selectedId = None, history = [], future = [],
     snapEnabled = False\<rparr>"

definition gridSize :: number where
  "gridSize = 24"

text \<open>\<^verbatim>\<open>pieces.find((p) => p.id === selectedId) || null\<close>: no piece has the id \<^verbatim>\<open>null\<close>.\<close>

definition selectedPiece :: "Studio \<Rightarrow> Piece option" where
  "selectedPiece s =
     (case selectedId s of
        None \<Rightarrow> None
      | Some i \<Rightarrow> find (\<lambda>p. id_piece p = i) (pieces s))"

subsection \<open>History\<close>

definition snapshot :: "Studio \<Rightarrow> Project" where
  "snapshot s = \<lparr>assets = assets s, pieces = pieces s\<rparr>"

text \<open>
  In the functions below \<open>r\<close> is the render whose closure runs and \<open>c\<close> the state its
  updates are applied to. A cell that the source names directly (\<^verbatim>\<open>history.length\<close>,
  \<^verbatim>\<open>history[history.length - 1]\<close>, the \<^verbatim>\<open>assets\<close> and \<^verbatim>\<open>pieces\<close> inside
  \<^verbatim>\<open>snapshot()\<close>) is read from \<open>r\<close>; an updater function given to a setter
  (\<^verbatim>\<open>setHistory((h) => h.slice(0, -1))\<close>) receives the value of \<open>c\<close>.
\<close>

definition pushHistoryFrom :: "Studio \<Rightarrow> Studio \<Rightarrow> Studio" where
  "pushHistoryFrom r c = c\<lparr>history := history c @ [snapshot r], future := []\<rparr>"

definition undoFrom :: "Studio \<Rightarrow> Studio \<Rightarrow> Studio" where
  "undoFrom r c =
     (if history r = [] then c
      else let prev = last (history r) in
        c\<lparr>history := butlast (history c),
          future := snapshot r # future c,
          assets := assets prev,
          pieces := pieces prev\<rparr>)"

definition redoFrom :: "Studio \<Rightarrow> Studio \<Rightarrow> Studio" where
  "redoFrom r c =
     (if future r = [] then c
      else let next = hd (future r) in
        c\<lparr>future := tl (future c),
          history := history c @ [snapshot r],
          assets := assets next,
          pieces := pieces next\<rparr>)"

text \<open>
  Called from the latest render, as the toolbar buttons \<^verbatim>\<open>onClick={undo}\<close> and
  \<^verbatim>\<open>onClick={redo}\<close> and the handlers of the other buttons do.
\<close>

definition pushHistory :: "Studio \<Rightarrow> Studio" where
  "pushHistory s = pushHistoryFrom s s"

definition undo :: "Studio \<Rightarrow> Studio" where
  "undo s = undoFrom s s"

definition redo :: "Studio \<Rightarrow> Studio" where
  "redo s = redoFrom s s"

subsection \<open>Operations on the document\<close>

text \<open>
  \<^verbatim>\<open>onUpload\<close>: every file is a name, the outcome of reading it (\<open>None\<close> when the
  reader fails) and the identifier \<^verbatim>\<open>uid()\<close> draws for it. A failed read rejects the
  whole handler, so that nothing is appended.

  The handler is asynchronous. \<open>onUploadStart\<close> is its part before the first
  \<^verbatim>\<open>await\<close>, which runs in the render of the click and is committed at once.
  \<open>onUploadDone\<close> is the part after the reads, the update
  \<^verbatim>\<open>setAssets((a) => [...a, ...newAssets])\<close> on the state of that later moment.
  \<open>onUpload\<close> is the two parts with no event between them.
\<close>

type_synonym upload = "string \<times> string option \<times> string"

fun readFiles :: "upload list \<Rightarrow> Asset list option" where
  "readFiles [] = Some []"
| "readFiles ((n, None, u) # fs) = None"
| "readFiles ((n, Some d, u) # fs) =
     map_option (\<lambda>as. \<lparr>id_asset = u, name = n, dataUrl = d\<rparr> # as) (readFiles fs)"

definition onUploadStart :: "upload list option \<Rightarrow> Studio \<Rightarrow> Studio" where
  "onUploadStart files s =
     (case files of
        None \<Rightarrow> s
      | Some fs \<Rightarrow> if fs = [] then s else pushHistory s)"

definition onUploadDone :: "upload list option \<Rightarrow> Studio \<Rightarrow> Studio" where
  "onUploadDone files s =
     (case files of
        None \<Rightarrow> s
      | Some fs \<Rightarrow>
          if fs = [] then s
          else (case readFiles fs of
                  None \<Rightarrow> s
                | Some newAssets \<Rightarrow> s\<lparr>assets := assets s @ newAssets\<rparr>))"

definition onUpload :: "upload list option \<Rightarrow> Studio \<Rightarrow> Studio" where
  "onUpload files s = onUploadDone files (onUploadStart files s)"

text \<open>
  \<^verbatim>\<open>addPieceFromAsset\<close>: the canvas is \<open>None\<close> while \<^verbatim>\<open>canvasRef.current\<close> is null,
  and otherwise the width and height of its bounding rectangle; \<open>new_id\<close> is the
  identifier drawn by \<^verbatim>\<open>uid()\<close>.
\<close>

type_synonym rect = "number \<times> number"

definition addPieceFromAsset :: "rect option \<Rightarrow> string \<Rightarrow> Asset \<Rightarrow> Studio \<Rightarrow> Studio" where
  "addPieceFromAsset canvas new_id asset s =
     (case canvas of
        None \<Rightarrow> s
      | Some (rw, rh) \<Rightarrow>
          let defaultSize = min rw rh * (3 / 10);
              newPiece = \<lparr>id_piece = new_id,
                          assetId = id_asset asset,
                          x = rw / 2 - defaultSize / 2,
                          y = rh / 2 - defaultSize / 2,
                          width = defaultSize,
                          height = defaultSize,
                          hue = 0,
                          saturate = 100,
                          brightness = 100,
                          contrast = 100,
                          opacity = 100,
                          z = (if pieces s = [] then 0 else z (last (pieces s))) + 1\<rparr>
          in (pushHistory s)\<lparr>pieces := pieces s @ [newPiece], selectedId := Some new_id\<rparr>)"

text \<open>\<^verbatim>\<open>if (!selectedId) return\<close>: both \<^verbatim>\<open>null\<close> and the empty string are falsy.\<close>

text \<open>
  \<^verbatim>\<open>removeSelected\<close> and \<^verbatim>\<open>duplicateSelected\<close> are also bound to keys, so they too
  are given with the render \<open>r\<close> of the closure and the state \<open>c\<close> apart: the guard, the
  selected piece and the snapshot come from \<open>r\<close>, the updater of \<^verbatim>\<open>setPieces\<close>
  works on \<open>c\<close>.
\<close>

definition removeSelectedFrom :: "Studio \<Rightarrow> Studio \<Rightarrow> Studio" where
  "removeSelectedFrom r c =
     (case selectedId r of
        None \<Rightarrow> c
      | Some i \<Rightarrow>
          if i = [] then c
          else (pushHistoryFrom r c)\<lparr>pieces := filter (\<lambda>p. id_piece p \<noteq> i) (pieces c),
                                      selectedId := None\<rparr>)"

definition duplicateSelectedFrom :: "string \<Rightarrow> Studio \<Rightarrow> Studio \<Rightarrow> Studio" where
  "duplicateSelectedFrom new_id r c =
     (case selectedPiece r of
        None \<Rightarrow> c
      | Some sp \<Rightarrow>
          let copy = sp\<lparr>id_piece := new_id, x := x sp + 20, y := y sp + 20, z := z sp + 1\<rparr>
          in (pushHistoryFrom r c)\<lparr>pieces := pieces c @ [copy], selectedId := Some new_id\<rparr>)"

definition removeSelected :: "Studio \<Rightarrow> Studio" where
  "removeSelected s = removeSelectedFrom s s"

definition duplicateSelected :: "string \<Rightarrow> Studio \<Rightarrow> Studio" where
  "duplicateSelected new_id s = duplicateSelectedFrom new_id s s"

definition bringForward :: "Studio \<Rightarrow> Studio" where
  "bringForward s =
     (case selectedPiece s of
        None \<Rightarrow> s
      | Some sp \<Rightarrow>
          (pushHistory s)\<lparr>pieces :=
             map (\<lambda>p. if id_piece p = id_piece sp then p\<lparr>z := z p + 1\<rparr> else p) (pieces s)\<rparr>)"

definition sendBackward :: "Studio \<Rightarrow> Studio" where
  "sendBackward s =
     (case selectedPiece s of
        None \<Rightarrow> s
      | Some sp \<Rightarrow>
          (pushHistory s)\<lparr>pieces :=
             map (\<lambda>p. if id_piece p = id_piece sp then p\<lparr>z := max 0 (z p - 1)\<rparr> else p)
               (pieces s)\<rparr>)"

text \<open>
  A \<^verbatim>\<open>Partial<Piece>\<close> is a list of field assignments; the spread
  \<^verbatim>\<open>{ ...x, ...patch }\<close> applies them in order.
\<close>

datatype PieceField =
    F_id string | F_assetId string
  | F_x number | F_y number | F_width number | F_height number
  | F_hue number | F_saturate number | F_brightness number | F_contrast number
  | F_opacity number | F_z number

fun assign :: "Piece \<Rightarrow> PieceField \<Rightarrow> Piece" where
  "assign p (F_id v) = p\<lparr>id_piece := v\<rparr>"
| "assign p (F_assetId v) = p\<lparr>assetId := v\<rparr>"
| "assign p (F_x v) = p\<lparr>x := v\<rparr>"
| "assign p (F_y v) = p\<lparr>y := v\<rparr>"
| "assign p (F_width v) = p\<lparr>width := v\<rparr>"
| "assign p (F_height v) = p\<lparr>height := v\<rparr>"
| "assign p (F_hue v) = p\<lparr>hue := v\<rparr>"
| "assign p (F_saturate v) = p\<lparr>saturate := v\<rparr>"
| "assign p (F_brightness v) = p\<lparr>brightness := v\<rparr>"
| "assign p (F_contrast v) = p\<lparr>contrast := v\<rparr>"
| "assign p (F_opacity v) = p\<lparr>opacity := v\<rparr>"
| "assign p (F_z v) = p\<lparr>z := v\<rparr>"

definition updateSelected :: "PieceField list \<Rightarrow> Studio \<Rightarrow> Studio" where
  "updateSelected patch s =
     (case selectedPiece s of
        None \<Rightarrow> s
      | Some sp \<Rightarrow>
          s\<lparr>pieces :=
             map (\<lambda>p. if id_piece p = id_piece sp then foldl assign p patch else p) (pieces s)\<rparr>)"

text \<open>Selecting a piece (\<^verbatim>\<open>onMouseDown\<close> on it) and clicking the empty background.\<close>

definition select :: "string \<Rightarrow> Studio \<Rightarrow> Studio" where
  "select i s = s\<lparr>selectedId := Some i\<rparr>"

definition deselect :: "Studio \<Rightarrow> Studio" where
  "deselect s = s\<lparr>selectedId := None\<rparr>"

subsection \<open>Snapping\<close>

text \<open>\<^verbatim>\<open>Math.round\<close> rounds to the nearest integer, a half towards plus infinity.\<close>

definition Math_round :: "number \<Rightarrow> int" where
  "Math_round v = \<lfloor>v + 1 / 2\<rfloor>"

text \<open>
  The expression \<^verbatim>\<open>snapEnabled ? Math.round(v / gridSize) * gridSize : v\<close>, which the
  handlers \<^verbatim>\<open>onDragStop\<close> and \<^verbatim>\<open>onResizeStop\<close> apply to each coordinate.
\<close>

definition snap :: "bool \<Rightarrow> number \<Rightarrow> number" where
  "snap enabled v = (if enabled then of_int (Math_round (v / gridSize)) * gridSize else v)"

definition onDragStop :: "number \<Rightarrow> number \<Rightarrow> Studio \<Rightarrow> Studio" where
  "onDragStop dx dy s =
     (let nx = snap (snapEnabled s) dx;
          ny = snap (snapEnabled s) dy
      in updateSelected [F_x nx, F_y ny] s)"

text \<open>
  \<^verbatim>\<open>onResizeStop\<close> of the piece \<open>pc_id\<close>: \<open>w\<close> and \<open>h\<close> are the parsed style width and
  height of the resized element, \<open>pos_x\<close> and \<open>pos_y\<close> its new position.
\<close>

definition onResizeStop :: "string \<Rightarrow> number \<Rightarrow> number \<Rightarrow> number \<Rightarrow> number \<Rightarrow> Studio \<Rightarrow> Studio" where
  "onResizeStop pc_id w h pos_x pos_y s =
     s\<lparr>pieces :=
        map (\<lambda>p. if id_piece p = pc_id
                 then p\<lparr>width := snap (snapEnabled s) w,
                        height := snap (snapEnabled s) h,
                        x := snap (snapEnabled s) pos_x,
                        y := snap (snapEnabled s) pos_y\<rparr>
                 else p) (pieces s)\<rparr>"

definition toggleSnap :: "Studio \<Rightarrow> Studio" where
  "toggleSnap s = s\<lparr>snapEnabled := \<not> snapEnabled s\<rparr>"

subsection \<open>Loading from local storage\<close>

definition PROJECT_KEY :: string where
  "PROJECT_KEY = ''modulaire-kunst-project-v1''"

text \<open>
  \<^verbatim>\<open>JSON.parse\<close> belongs to the host, not to the repository, and is a parameter of
  the model. Its outcome on the stored text is one of: it throws; it returns \<^verbatim>\<open>null\<close>
  (then reading \<^verbatim>\<open>data.assets\<close> throws); it returns any other value, whose
  \<^verbatim>\<open>assets\<close> and \<^verbatim>\<open>pieces\<close> properties are each an array or falsy (\<open>None\<close>).
\<close>

datatype parsed = Throws | Null | Value "Asset list option" "Piece list option"

text \<open>
  \<^verbatim>\<open>loadProject\<close> returns the new state and the text of the \<^verbatim>\<open>alert\<close> it raises,
  if any. \<^verbatim>\<open>localStorage.getItem\<close> is the lookup in a map from keys to texts.
\<close>

definition loadProject ::
  "(string \<Rightarrow> parsed) \<Rightarrow> (string \<rightharpoonup> string) \<Rightarrow> Studio \<Rightarrow> Studio \<times> string option" where
  "loadProject JSON_parse localStorage s =
     (case localStorage PROJECT_KEY of
        None \<Rightarrow> (s, Some ''Geen opgeslagen project gevonden.'')
      | Some raw \<Rightarrow>
          if raw = [] then (s, Some ''Geen opgeslagen project gevonden.'')
          else (case JSON_parse raw of
                  Throws \<Rightarrow> (s, Some ''Kon project niet laden.'')
                | Null \<Rightarrow> (s, Some ''Kon project niet laden.'')
                | Value data_assets data_pieces \<Rightarrow>
                    (s\<lparr>assets := (case data_assets of None \<Rightarrow> [] | Some as \<Rightarrow> as),
                       pieces := (case data_pieces of None \<Rightarrow> [] | Some ps \<Rightarrow> ps),
                       selectedId := None\<rparr>,
                     None)))"

subsection \<open>The operations that record history\<close>

text \<open>
  The six handlers that call \<^verbatim>\<open>pushHistory\<close>, with the inputs each one receives.
  \<open>records m s\<close> is the condition under which the handler gets past its guard and
  reaches that call.
\<close>

datatype Mutation =
    Upload "upload list option"
  | AddPiece "rect option" string Asset
  | RemoveSelected
  | DuplicateSelected string
  | BringForward
  | SendBackward

fun perform :: "Mutation \<Rightarrow> Studio \<Rightarrow> Studio" where
  "perform (Upload files) s = onUpload files s"
| "perform (AddPiece canvas new_id asset) s = addPieceFromAsset canvas new_id asset s"
| "perform RemoveSelected s = removeSelected s"
| "perform (DuplicateSelected new_id) s = duplicateSelected new_id s"
| "perform BringForward s = bringForward s"
| "perform SendBackward s = sendBackward s"

fun records :: "Mutation \<Rightarrow> Studio \<Rightarrow> bool" where
  "records (Upload files) s = (files \<noteq> None \<and> files \<noteq> Some [])"
| "records (AddPiece canvas new_id asset) s = (canvas \<noteq> None)"
| "records RemoveSelected s = (selectedId s \<noteq> None \<and> selectedId s \<noteq> Some [])"
| "records (DuplicateSelected new_id) s = (selectedPiece s \<noteq> None)"
| "records BringForward s = (selectedPiece s \<noteq> None)"
| "records SendBackward s = (selectedPiece s \<noteq> None)"

fun performAll :: "Mutation list \<Rightarrow> Studio \<Rightarrow> Studio" where
  "performAll [] s = s"
| "performAll (m # ms) s = performAll ms (perform m s)"

fun allRecord :: "Mutation list \<Rightarrow> Studio \<Rightarrow> bool" where
  "allRecord [] s = True"
| "allRecord (m # ms) s = (records m s \<and> allRecord ms (perform m s))"

subsection \<open>Renders and the key listener\<close>

text \<open>
  The listener \<^verbatim>\<open>onKey\<close>, run as the closure of render \<open>r\<close> on the state \<open>c\<close>. Its four
  tests follow one another without \<^verbatim>\<open>else\<close>. \<^verbatim>\<open>e.key.toLowerCase() === 'z'\<close>
  holds for the keys \<^verbatim>\<open>z\<close> and \<^verbatim>\<open>Z\<close>. \<open>new_id\<close> is what \<^verbatim>\<open>uid()\<close> draws if
  the listener duplicates.
\<close>

record KeyboardEvent =
  key :: string
  ctrlKey :: bool
  metaKey :: bool
  shiftKey :: bool

definition onKey :: "KeyboardEvent \<Rightarrow> string \<Rightarrow> Studio \<Rightarrow> Studio \<Rightarrow> Studio" where
  "onKey e new_id r c =
     (let c1 = (if key e = ''Delete'' \<or> key e = ''Backspace''
                then removeSelectedFrom r c else c);
          c2 = (if (ctrlKey e \<or> metaKey e) \<and> (key e = ''z'' \<or> key e = ''Z'')
                then (if shiftKey e then redoFrom r c1 else undoFrom r c1) else c1);
          c3 = (if (ctrlKey e \<or> metaKey e) \<and> (key e = ''y'' \<or> key e = ''Y'')
                then redoFrom r c2 else c2);
          c4 = (if (ctrlKey e \<or> metaKey e) \<and> (key e = ''d'' \<or> key e = ''D'')
                then duplicateSelectedFrom new_id r c3 else c3)
      in c4)"

text \<open>
  The running component: the committed state \<open>live\<close>, and the render \<open>listener\<close> whose
  closures the registered \<^verbatim>\<open>keydown\<close> listener holds. The effect that registers the
  listener has the dependencies \<^verbatim>\<open>[selectedPiece, history, future]\<close>: after a commit
  the listener is replaced by the one of the new render only if one of the three has
  changed. React compares them by identity; for the events below that is the same as
  comparing values, since every handler that sets \<^verbatim>\<open>history\<close> or \<^verbatim>\<open>future\<close> changes
  the length of \<^verbatim>\<open>history\<close>, and the late \<^verbatim>\<open>setAssets\<close> of an upload touches none
  of the three.
\<close>

record App =
  live :: Studio
  listener :: Studio

definition mounted :: App where
  "mounted = \<lparr>live = initial, listener = initial\<rparr>"

definition depsChanged :: "Studio \<Rightarrow> Studio \<Rightarrow> bool" where
  "depsChanged old new =
     (selectedPiece new \<noteq> selectedPiece old \<or> history new \<noteq> history old \<or>
      future new \<noteq> future old)"

definition rerender :: "Studio \<Rightarrow> App \<Rightarrow> App" where
  "rerender c a = \<lparr>live = c, listener = (if depsChanged (live a) c then c else listener a)\<rparr>"

text \<open>
  Events: choosing files (the start of \<^verbatim>\<open>onUpload\<close>), the end of their reading,
  clicking an asset thumbnail, the undo and redo buttons, and a key press. Buttons run
  the handler of the latest render, a key press runs the registered listener.
\<close>

datatype Event =
    FilesChosen "upload list option"
  | FilesRead "upload list option"
  | AssetClicked "rect option" string Asset
  | UndoClicked
  | RedoClicked
  | KeyDown KeyboardEvent string

fun handle :: "Event \<Rightarrow> App \<Rightarrow> Studio" where
  "handle (FilesChosen files) a = onUploadStart files (live a)"
| "handle (FilesRead files) a = onUploadDone files (live a)"
| "handle (AssetClicked canvas new_id asset) a = addPieceFromAsset canvas new_id asset (live a)"
| "handle UndoClicked a = undo (live a)"
| "handle RedoClicked a = redo (live a)"
| "handle (KeyDown e new_id) a = onKey e new_id (listener a) (live a)"

definition fire :: "Event \<Rightarrow> App \<Rightarrow> App" where
  "fire ev a = rerender (handle ev a) a"

fun fires :: "Event list \<Rightarrow> App \<Rightarrow> App" where
  "fires [] a = a"
| "fires (ev # evs) a = fires evs (fire ev a)"

subsection \<open>Concrete sessions\<close>

text \<open>States and inputs on which the results below are evaluated.\<close>

definition asset1 :: Asset where
  "asset1 = \<lparr>id_asset = ''a1'', name = ''art1.svg'', dataUrl = ''data:image/svg+xml;base64,AA==''\<rparr>"

definition canvas1 :: "rect option" where
  "canvas1 = Some (800, 600)"

definition files1 :: "upload list option" where
  "files1 = Some [(''foto.png'', Some ''data:image/png;base64,AA=='', ''a2'')]"

definition photo1 :: Asset where
  "photo1 = \<lparr>id_asset = ''a2'', name = ''foto.png'', dataUrl = ''data:image/png;base64,AA==''\<rparr>"

text \<open>The key presses Ctrl+Z, Ctrl+Shift+Z and Delete.\<close>

definition ctrlZ :: KeyboardEvent where
  "ctrlZ = \<lparr>key = ''z'', ctrlKey = True, metaKey = False, shiftKey = False\<rparr>"

definition ctrlShiftZ :: KeyboardEvent where
  "ctrlShiftZ = \<lparr>key = ''Z'', ctrlKey = True, metaKey = False, shiftKey = True\<rparr>"

definition deleteKey :: KeyboardEvent where
  "deleteKey = \<lparr>key = ''Delete'', ctrlKey = False, metaKey = False, shiftKey = False\<rparr>"

text \<open>
  The component after one file has been uploaded, and after one piece has been placed
  and Ctrl+Z pressed.
\<close>

definition uploaded1 :: App where
  "uploaded1 = fires [FilesChosen files1, FilesRead files1] mounted"

definition undone1 :: App where
  "undone1 = fires [AssetClicked canvas1 ''p1'' asset1, KeyDown ctrlZ ''u1''] mounted"

definition session1 :: "Mutation list" where
  "session1 =
     [Upload files1,
      AddPiece canvas1 ''p1'' asset1,
      DuplicateSelected ''p2'',
      BringForward]"

text \<open>One piece placed; two pieces placed; then the first one brought forward twice.\<close>

definition placed1 :: Studio where
  "placed1 = addPieceFromAsset canvas1 ''p1'' asset1 initial"

definition placed2 :: Studio where
  "placed2 = addPieceFromAsset canvas1 ''p2'' asset1 placed1"

definition reordered :: Studio where
  "reordered = bringForward (bringForward (select ''p1'' placed2))"

definition piece1 :: Piece where
  "piece1 = \<lparr>id_piece = ''p1'', assetId = ''a1'', x = 310, y = 210, width = 180, height = 180,
     hue = 0, saturate = 100, brightness = 100, contrast = 100, opacity = 100, z = 1\<rparr>"

definition piece2 :: Piece where
  "piece2 = piece1\<lparr>id_piece := ''p2'', z := 2\<rparr>"

text \<open>The piece of the duplication example: at (100, 100), 50 by 50, with z = 3.\<close>

definition piece3 :: Piece where
  "piece3 = \<lparr>id_piece = ''q1'', assetId = ''a1'', x = 100, y = 100, width = 50, height = 50,
     hue = 0, saturate = 100, brightness = 100, contrast = 100, opacity = 100, z = 3\<rparr>"

definition studio3 :: Studio where
  "studio3 = \<lparr>assets = [asset1], pieces = [piece3], selectedId = Some ''q1'', history = [],
     future = [], snapEnabled = False\<rparr>"

text \<open>A store holding a project text, a store holding a broken text, and a parser for them.\<close>

definition stored_text :: string where
  "stored_text =
     ''{\"assets\":[{\"id\":\"a1\",\"name\":\"art1.svg\",\"dataUrl\":\"data:image/svg+xml;base64,AA==\"}],\"pieces\":[]}''"

definition parse1 :: "string \<Rightarrow> parsed" where
  "parse1 raw = (if raw = stored_text then Value (Some [asset1]) (Some []) else Throws)"

definition store_good :: "string \<rightharpoonup> string" where
  "store_good = [PROJECT_KEY \<mapsto> stored_text]"

definition store_broken :: "string \<rightharpoonup> string" where
  "store_broken = [PROJECT_KEY \<mapsto> ''{\"assets\":'']"

section \<open>Properties\<close>

subsection \<open>Handlers of the latest render\<close>

text \<open>With the closure and the state the same, the handlers read as the source does.\<close>

lemma pushHistory_eq:
  "pushHistory s = s\<lparr>history := history s @ [snapshot s], future := []\<rparr>"
  by (simp add: pushHistory_def pushHistoryFrom_def)

lemma undo_eq:
  "undo s =
     (if history s = [] then s
      else let prev = last (history s) in
        s\<lparr>history := butlast (history s),
          future := snapshot s # future s,
          assets := assets prev,
          pieces := pieces prev\<rparr>)"
  by (simp add: undo_def undoFrom_def)

lemma redo_eq:
  "redo s =
     (if future s = [] then s
      else let next = hd (future s) in
        s\<lparr>future := tl (future s),
          history := history s @ [snapshot s],
          assets := assets next,
          pieces := pieces next\<rparr>)"
  by (simp add: redo_def redoFrom_def)

lemma onUpload_eq:
  "onUpload files s =
     (case files of
        None \<Rightarrow> s
      | Some fs \<Rightarrow>
          if fs = [] then s
          else (case readFiles fs of
                  None \<Rightarrow> pushHistory s
                | Some newAssets \<Rightarrow> (pushHistory s)\<lparr>assets := assets s @ newAssets\<rparr>))"
  by (simp add: onUpload_def onUploadStart_def onUploadDone_def pushHistory_eq
      split: option.splits)

lemma removeSelected_eq:
  "removeSelected s =
     (case selectedId s of
        None \<Rightarrow> s
      | Some i \<Rightarrow>
          if i = [] then s
          else (pushHistory s)\<lparr>pieces := filter (\<lambda>p. id_piece p \<noteq> i) (pieces s),
                                selectedId := None\<rparr>)"
  by (simp add: removeSelected_def removeSelectedFrom_def pushHistory_def split: option.splits)

lemma duplicateSelected_eq:
  "duplicateSelected new_id s =
     (case selectedPiece s of
        None \<Rightarrow> s
      | Some sp \<Rightarrow>
          let copy = sp\<lparr>id_piece := new_id, x := x sp + 20, y := y sp + 20, z := z sp + 1\<rparr>
          in (pushHistory s)\<lparr>pieces := pieces s @ [copy], selectedId := Some new_id\<rparr>)"
  by (simp add: duplicateSelected_def duplicateSelectedFrom_def pushHistory_def Let_def
      split: option.splits)

subsection \<open>Basic facts about the history\<close>

lemmas handler_defs = onUpload_eq addPieceFromAsset_def removeSelected_eq
  duplicateSelected_eq bringForward_def sendBackward_def updateSelected_def pushHistory_eq
  snapshot_def selectedPiece_def select_def deselect_def

lemma records_history:
  "records m s \<Longrightarrow>
     history (perform m s) = history s @ [snapshot s] \<and> future (perform m s) = []"
  by (cases m)
     (auto simp: onUpload_eq addPieceFromAsset_def removeSelected_eq duplicateSelected_eq
        bringForward_def sendBackward_def pushHistory_eq Let_def split: option.splits)

lemma not_records_noop: "\<not> records m s \<Longrightarrow> perform m s = s"
  by (cases m)
     (auto simp: onUpload_eq addPieceFromAsset_def removeSelected_eq duplicateSelected_eq
        bringForward_def sendBackward_def split: option.splits)

lemma undo_empty: "history s = [] \<Longrightarrow> undo s = s"
  by (simp add: undo_eq)

lemma redo_empty: "future s = [] \<Longrightarrow> redo s = s"
  by (simp add: redo_eq)

lemma project_eta: "\<lparr>assets = assets (p::Project), pieces = pieces p\<rparr> = p"
  by simp

lemma redo_undo: "history s \<noteq> [] \<Longrightarrow> redo (undo s) = s"
  by (simp add: undo_eq redo_eq snapshot_def Let_def project_eta)

lemma undo_fields:
  "history s \<noteq> [] \<Longrightarrow> snapshot (undo s) = last (history s)"
  "history s \<noteq> [] \<Longrightarrow> history (undo s) = butlast (history s)"
  by (simp_all add: undo_eq snapshot_def Let_def)

lemma undo_performAll:
  "allRecord ms s \<Longrightarrow>
     snapshot ((undo ^^ length ms) (performAll ms s)) = snapshot s \<and>
     history ((undo ^^ length ms) (performAll ms s)) = history s"
proof (induction ms arbitrary: s)
  case Nil
  then show ?case by simp
next
  case (Cons m ms)
  let ?u = "(undo ^^ length ms) (performAll ms (perform m s))"
  from Cons.prems have rec: "records m s" and rest: "allRecord ms (perform m s)"
    by simp_all
  from Cons.IH [OF rest] records_history [OF rec]
  have h: "history ?u = history s @ [snapshot s]"
    by simp
  then have "snapshot (undo ?u) = snapshot s" "history (undo ?u) = history s"
    by (simp_all add: undo_fields)
  then show ?case by simp
qed

lemma length_history_undo1: "length (history (undo t)) = length (history t) - 1"
  by (simp add: undo_eq Let_def)

lemma length_history_undo:
  "length (history ((undo ^^ n) t)) = length (history t) - n"
  by (induction n) (simp_all add: length_history_undo1)

lemma redo_undo_funpow:
  "n \<le> length (history t) \<Longrightarrow> (redo ^^ n) ((undo ^^ n) t) = t"
proof (induction n)
  case 0
  then show ?case by simp
next
  case (Suc n)
  have "length (history ((undo ^^ n) t)) = length (history t) - n"
    by (rule length_history_undo)
  with Suc.prems have ne: "history ((undo ^^ n) t) \<noteq> []"
    by auto
  have "(redo ^^ Suc n) ((undo ^^ Suc n) t) = (redo ^^ n) (redo (undo ((undo ^^ n) t)))"
    by (simp add: funpow_swap1)
  also have "\<dots> = (redo ^^ n) ((undo ^^ n) t)"
    by (simp add: redo_undo [OF ne])
  also have "\<dots> = t"
    using Suc by simp
  finally show ?case .
qed

lemma length_history_performAll:
  "allRecord ms s \<Longrightarrow> length (history (performAll ms s)) = length (history s) + length ms"
  by (induction ms arbitrary: s) (simp_all add: records_history)

lemma allRecord_session1: "allRecord session1 initial"
  by (simp add: session1_def files1_def canvas1_def asset1_def initial_def handler_defs Let_def)

subsection \<open>Undo and redo\<close>

text \<open>
  With the handlers of the latest render, as the toolbar buttons run them: let \<open>ms\<close> be
  operations that each get past their guard and record a history entry, performed one
  after the other from any state \<open>s\<close>. Undoing as many times as there are operations
  gives back the assets, the pieces and the history stack of \<open>s\<close>; redoing as many times
  after that gives back the whole state reached by the operations.
\<close>

lemma undo_redo_roundtrip_latest_render:
  assumes "allRecord ms s"
  shows "assets ((undo ^^ length ms) (performAll ms s)) = assets s \<and>
         pieces ((undo ^^ length ms) (performAll ms s)) = pieces s \<and>
         history ((undo ^^ length ms) (performAll ms s)) = history s \<and>
         (redo ^^ length ms) ((undo ^^ length ms) (performAll ms s)) = performAll ms s"
proof -
  from undo_performAll [OF assms]
  have "assets ((undo ^^ length ms) (performAll ms s)) = assets s"
       "pieces ((undo ^^ length ms) (performAll ms s)) = pieces s"
       "history ((undo ^^ length ms) (performAll ms s)) = history s"
    by (simp_all add: snapshot_def)
  moreover from length_history_performAll [OF assms]
  have "(redo ^^ length ms) ((undo ^^ length ms) (performAll ms s)) = performAll ms s"
    by (intro redo_undo_funpow) simp
  ultimately show ?thesis by simp
qed

lemma undo_redo_roundtrip_session1:
  "assets (performAll session1 initial) \<noteq> [] \<and>
   assets ((undo ^^ 4) (performAll session1 initial)) = [] \<and>
   pieces ((undo ^^ 4) (performAll session1 initial)) = [] \<and>
   (redo ^^ 4) ((undo ^^ 4) (performAll session1 initial)) = performAll session1 initial"
proof -
  have len: "length session1 = 4"
    by (simp add: session1_def)
  have ini: "assets initial = []" "pieces initial = []"
    by (simp_all add: initial_def)
  have "assets (performAll session1 initial) \<noteq> []"
    by (simp add: session1_def files1_def canvas1_def asset1_def initial_def handler_defs Let_def)
  with undo_redo_roundtrip_latest_render [OF allRecord_session1] show ?thesis
    by (simp add: len ini)
qed

text \<open>
  The same through the key listener. After an upload the listener is the one registered
  when the history entry was pushed: the late append of the assets changes none of the
  effect's dependencies, so the listener still holds the assets from before the upload.
\<close>

lemmas listener_defs = fire_def rerender_def depsChanged_def onKey_def undoFrom_def
  redoFrom_def removeSelectedFrom_def duplicateSelectedFrom_def pushHistoryFrom_def
  onUploadStart_def onUploadDone_def

lemma fires_append: "fires (evs @ evs') a = fires evs' (fires evs a)"
  by (induction evs arbitrary: a) simp_all

lemma uploaded1_eval:
  "uploaded1 =
     \<lparr>live = \<lparr>assets = [photo1], pieces = [], selectedId = None,
               history = [\<lparr>assets = [], pieces = []\<rparr>], future = [], snapEnabled = False\<rparr>,
      listener = \<lparr>assets = [], pieces = [], selectedId = None,
                   history = [\<lparr>assets = [], pieces = []\<rparr>], future = [], snapEnabled = False\<rparr>\<rparr>"
  by (simp add: uploaded1_def mounted_def initial_def files1_def photo1_def listener_defs
      pushHistory_eq snapshot_def selectedPiece_def)

lemma uploaded1_buttons:
  "assets (live (fires [UndoClicked, RedoClicked] uploaded1)) = [photo1]"
  by (simp add: uploaded1_eval listener_defs undo_eq redo_eq snapshot_def selectedPiece_def)

text \<open>
  C1, at the input where the code leaves it. One operation, an upload of one file, is
  followed by one undo and one redo, both by key press (Ctrl+Z, then Ctrl+Shift+Z). The
  undo restores the empty document, but the snapshot it puts on the future stack is the
  listener's, taken before the assets were appended: the redo restores an empty document
  again, the uploaded asset is gone and the future stack is empty. The buttons, which run
  the handlers of the latest render, give the asset back (\<open>uploaded1_buttons\<close>).
\<close>

theorem keyboard_redo_loses_upload:
  "assets (live uploaded1) = [photo1] \<and>
   assets (listener uploaded1) = [] \<and>
   assets (live (fires [KeyDown ctrlZ ''u1''] uploaded1)) = [] \<and>
   assets (live (fires [KeyDown ctrlZ ''u1'', KeyDown ctrlShiftZ ''u2''] uploaded1)) = [] \<and>
   future (live (fires [KeyDown ctrlZ ''u1'', KeyDown ctrlShiftZ ''u2''] uploaded1)) = []"
  by (simp add: uploaded1_eval listener_defs ctrlZ_def ctrlShiftZ_def snapshot_def
      selectedPiece_def)

text \<open>
  C2. An operation that records a history entry leaves the future stack empty, whatever
  earlier undos had put on it. A redo right after it changes nothing, and after one more
  undo the future stack is populated again.
\<close>

theorem mutation_clears_future:
  assumes "records m s"
  shows "future (perform m s) = [] \<and>
         redo (perform m s) = perform m s \<and>
         future (undo (perform m s)) \<noteq> []"
proof -
  from records_history [OF assms]
  have h: "history (perform m s) = history s @ [snapshot s]" and f: "future (perform m s) = []"
    by simp_all
  from f have "redo (perform m s) = perform m s"
    by (rule redo_empty)
  moreover from h have "future (undo (perform m s)) \<noteq> []"
    by (simp add: undo_eq Let_def)
  ultimately show ?thesis using f by simp
qed

theorem mutation_clears_future_witness:
  "future (undo placed2) \<noteq> [] \<and>
   records (AddPiece canvas1 ''p3'' asset1) (undo placed2) \<and>
   future (perform (AddPiece canvas1 ''p3'' asset1) (undo placed2)) = [] \<and>
   redo (perform (AddPiece canvas1 ''p3'' asset1) (undo placed2)) =
     perform (AddPiece canvas1 ''p3'' asset1) (undo placed2) \<and>
   future (undo (perform (AddPiece canvas1 ''p3'' asset1) (undo placed2))) \<noteq> []"
proof -
  have pop: "future (undo placed2) \<noteq> []"
    by (simp add: placed2_def placed1_def canvas1_def initial_def undo_eq handler_defs Let_def)
  have rec: "records (AddPiece canvas1 ''p3'' asset1) (undo placed2)"
    by (simp add: canvas1_def)
  from mutation_clears_future [OF rec] pop rec show ?thesis
    by simp
qed

text \<open>
  C3. With an empty history stack \<open>undo\<close> returns the state it was given, and with an
  empty future stack so does \<open>redo\<close>: document, stacks and selection are all unchanged.
\<close>

theorem undo_redo_empty_noop:
  "(history s = [] \<longrightarrow> undo s = s) \<and> (future s = [] \<longrightarrow> redo s = s)"
  by (simp add: undo_eq redo_eq)

theorem undo_redo_empty_noop_witness:
  "history initial = [] \<and> undo initial = initial \<and>
   future initial = [] \<and> redo initial = initial"
proof -
  have "history initial = []" "future initial = []"
    by (simp_all add: initial_def)
  with undo_redo_empty_noop [of initial] show ?thesis
    by simp
qed

subsection \<open>Placing and duplicating pieces\<close>

lemma find_None_dangling:
  "i \<notin> id_piece ` set ps \<Longrightarrow> find (\<lambda>p. id_piece p = i) ps = None"
  by (auto simp: find_None_iff)

lemma find_append_fresh:
  "find P ps = None \<Longrightarrow> find P (ps @ [q]) = (if P q then Some q else None)"
  by (induction ps) (auto split: if_splits)

lemma selectedPiece_SomeD:
  "selectedPiece s = Some p \<Longrightarrow> selectedId s = Some (id_piece p) \<and> p \<in> set (pieces s)"
  by (cases "selectedId s") (auto simp: selectedPiece_def find_Some_iff)

lemma selectedPiece_find:
  "selectedPiece s = Some p \<Longrightarrow> find (\<lambda>q. id_piece q = id_piece p) (pieces s) = Some p"
  by (cases "selectedId s") (auto simp: selectedPiece_def find_Some_iff)

lemma placed1_eval:
  "pieces placed1 = [piece1]" "selectedId placed1 = Some ''p1''"
  "history placed1 = [\<lparr>assets = [], pieces = []\<rparr>]" "future placed1 = []"
  by (simp_all add: placed1_def canvas1_def asset1_def initial_def piece1_def handler_defs Let_def)

lemma placed2_eval:
  "pieces placed2 = [piece1, piece2]" "selectedId placed2 = Some ''p2''"
  by (simp_all add: placed2_def placed1_eval canvas1_def asset1_def piece1_def piece2_def
      handler_defs Let_def)

lemma reordered_eval:
  "pieces reordered = [piece1\<lparr>z := 3\<rparr>, piece2]" "selectedId reordered = Some ''p1''"
  by (simp_all add: reordered_def placed2_eval piece1_def piece2_def handler_defs)

text \<open>
  C4, as the code has it. With a canvas of width \<open>w\<close> and height \<open>h\<close>, placing a piece
  appends one new piece and records a history entry. The new piece is a square whose side
  is 30 percent of the smaller canvas dimension, its centre is the centre of the canvas,
  and its z is one more than the z of the \<^emph>\<open>last\<close> piece of the list (1 when there
  is no piece). The selection becomes the new identifier, and the selected-piece lookup
  yields the new piece when that identifier is not already in use. Without a canvas the
  state is returned unchanged.
\<close>

theorem addPieceFromAsset_placed:
  "(let s' = addPieceFromAsset (Some (w, h)) new_id asset s; np = last (pieces s') in
      pieces s' = pieces s @ [np] \<and>
      id_piece np = new_id \<and>
      width np = min w h * (3 / 10) \<and>
      height np = min w h * (3 / 10) \<and>
      x np + width np / 2 = w / 2 \<and>
      y np + height np / 2 = h / 2 \<and>
      z np = (if pieces s = [] then 1 else z (last (pieces s)) + 1) \<and>
      selectedId s' = Some new_id \<and>
      (new_id \<notin> id_piece ` set (pieces s) \<longrightarrow> selectedPiece s' = Some np) \<and>
      assets s' = assets s \<and>
      history s' = history s @ [snapshot s] \<and>
      future s' = []) \<and>
   addPieceFromAsset None new_id asset s = s"
  by (simp add: addPieceFromAsset_def Let_def pushHistory_eq selectedPiece_def
      find_append_fresh find_None_dangling)

theorem addPieceFromAsset_placed_witness:
  "''p3'' \<notin> id_piece ` set (pieces reordered) \<and>
   pieces (addPieceFromAsset canvas1 ''p3'' asset1 reordered) =
     pieces reordered @ [last (pieces (addPieceFromAsset canvas1 ''p3'' asset1 reordered))] \<and>
   width (last (pieces (addPieceFromAsset canvas1 ''p3'' asset1 reordered))) = 180 \<and>
   x (last (pieces (addPieceFromAsset canvas1 ''p3'' asset1 reordered))) + 180 / 2 = 800 / 2 \<and>
   z (last (pieces (addPieceFromAsset canvas1 ''p3'' asset1 reordered))) = 3 \<and>
   selectedPiece (addPieceFromAsset canvas1 ''p3'' asset1 reordered) =
     Some (last (pieces (addPieceFromAsset canvas1 ''p3'' asset1 reordered))) \<and>
   addPieceFromAsset None ''p3'' asset1 reordered = reordered"
proof -
  have fresh: "''p3'' \<notin> id_piece ` set (pieces reordered)"
    by (simp add: reordered_eval piece1_def piece2_def)
  have last2: "z (last (pieces reordered)) = 2" "pieces reordered \<noteq> []"
    by (simp_all add: reordered_eval piece2_def piece1_def)
  from addPieceFromAsset_placed [of 800 600 "''p3''" asset1 reordered] fresh last2
  show ?thesis
    by (simp add: Let_def canvas1_def)
qed

text \<open>
  The new z follows the last piece of the list, not the largest z. After two pieces are
  placed and the first one is brought forward twice, the pieces have z = 3 and z = 2;
  a third piece gets z = 3, where the largest z plus one is 4.
\<close>

theorem addPieceFromAsset_max_z_counterexample:
  "z (last (pieces (addPieceFromAsset canvas1 ''p3'' asset1 reordered))) = 3 \<and>
   Max (z ` set (pieces reordered)) + 1 = 4"
  by (simp add: addPieceFromAsset_def canvas1_def Let_def pushHistory_eq reordered_eval
      piece1_def piece2_def)

text \<open>
  C5, as the code has it. When the selected-piece lookup yields \<open>p\<close>, duplicating
  appends one piece that is \<open>p\<close> with the identifier drawn by \<^verbatim>\<open>uid()\<close>, x and y
  increased by 20 and z increased by 1, every other field copied. The list before it,
  the original included, is unchanged, a history entry is recorded and the stored
  selection becomes the drawn identifier. The draw is not checked against the
  identifiers in use: the copy's identifier is the drawn one, whatever it is, and the
  selected-piece lookup yields the copy when no piece carried that identifier before.
  When the lookup yields nothing, the state is returned unchanged.
\<close>

theorem duplicateSelected_copy:
  "(selectedPiece s = Some p \<longrightarrow>
      (let s' = duplicateSelected new_id s;
           c = p\<lparr>id_piece := new_id, x := x p + 20, y := y p + 20, z := z p + 1\<rparr> in
         pieces s' = pieces s @ [c] \<and>
         id_piece c = new_id \<and>
         selectedId s' = Some new_id \<and>
         assets s' = assets s \<and>
         history s' = history s @ [snapshot s] \<and>
         future s' = [] \<and>
         (new_id \<notin> id_piece ` set (pieces s) \<longrightarrow> selectedPiece s' = Some c))) \<and>
   (selectedPiece s = None \<longrightarrow> duplicateSelected new_id s = s)"
proof -
  { assume sel: "selectedPiece s = Some p"
    let ?c = "p\<lparr>id_piece := new_id, x := x p + 20, y := y p + 20, z := z p + 1\<rparr>"
    let ?s' = "duplicateSelected new_id s"
    from sel have upd:
      "?s' = (pushHistory s)\<lparr>pieces := pieces s @ [?c], selectedId := Some new_id\<rparr>"
      by (simp add: duplicateSelected_eq Let_def)
    have basic: "pieces ?s' = pieces s @ [?c]" "id_piece ?c = new_id"
      "selectedId ?s' = Some new_id" "assets ?s' = assets s"
      "history ?s' = history s @ [snapshot s]" "future ?s' = []"
      by (simp_all add: upd pushHistory_eq)
    { assume fresh: "new_id \<notin> id_piece ` set (pieces s)"
      then have "selectedPiece ?s' = Some ?c"
        by (simp add: selectedPiece_def basic find_append_fresh find_None_dangling) }
    with basic have "let s' = ?s'; c = ?c in
         pieces s' = pieces s @ [c] \<and> id_piece c = new_id \<and> selectedId s' = Some new_id \<and>
         assets s' = assets s \<and> history s' = history s @ [snapshot s] \<and> future s' = [] \<and>
         (new_id \<notin> id_piece ` set (pieces s) \<longrightarrow> selectedPiece s' = Some c)"
      unfolding Let_def by blast }
  moreover have "selectedPiece s = None \<longrightarrow> duplicateSelected new_id s = s"
    by (simp add: duplicateSelected_eq)
  ultimately show ?thesis by blast
qed

theorem duplicateSelected_copy_witness:
  "selectedPiece studio3 = Some piece3 \<and>
   ''q2'' \<notin> id_piece ` set (pieces studio3) \<and>
   pieces (duplicateSelected ''q2'' studio3) =
     [piece3, piece3\<lparr>id_piece := ''q2'', x := 120, y := 120, z := 4\<rparr>] \<and>
   selectedPiece (duplicateSelected ''q2'' studio3) =
     Some (piece3\<lparr>id_piece := ''q2'', x := 120, y := 120, z := 4\<rparr>) \<and>
   history (duplicateSelected ''q2'' studio3) = [\<lparr>assets = [asset1], pieces = [piece3]\<rparr>] \<and>
   selectedPiece initial = None \<and>
   duplicateSelected ''q2'' initial = initial"
proof -
  have sel: "selectedPiece studio3 = Some piece3"
    by (simp add: studio3_def piece3_def selectedPiece_def)
  have fresh: "''q2'' \<notin> id_piece ` set (pieces studio3)"
    by (simp add: studio3_def piece3_def)
  have vals: "x piece3 + 20 = 120" "y piece3 + 20 = 120" "z piece3 + 1 = 4"
    "pieces studio3 = [piece3]" "history studio3 = []"
    "snapshot studio3 = \<lparr>assets = [asset1], pieces = [piece3]\<rparr>"
    by (simp_all add: piece3_def studio3_def snapshot_def)
  have none: "selectedPiece initial = None"
    by (simp add: initial_def selectedPiece_def)
  from duplicateSelected_copy [of studio3 piece3 "''q2''"]
       duplicateSelected_copy [of initial piece3 "''q2''"] sel fresh none
  show ?thesis
    by (simp add: Let_def vals)
qed

text \<open>
  The identifier of the copy need not differ from the original's. When \<^verbatim>\<open>uid()\<close>
  draws \<^verbatim>\<open>q1\<close>, the identifier of the selected piece, the copy carries \<^verbatim>\<open>q1\<close>
  too, and the selected-piece lookup afterwards still yields the original.
\<close>

theorem duplicateSelected_same_id_counterexample:
  "selectedPiece studio3 = Some piece3 \<and>
   id_piece (last (pieces (duplicateSelected ''q1'' studio3))) = id_piece piece3 \<and>
   selectedPiece (duplicateSelected ''q1'' studio3) = Some piece3"
  by (simp add: studio3_def piece3_def selectedPiece_def duplicateSelected_eq pushHistory_eq
      Let_def)

text \<open>
  C10. The piece appended by \<^verbatim>\<open>addPieceFromAsset\<close> has hue rotation 0, saturation,
  brightness, contrast and opacity 100, and the identifier of the asset it was placed
  from as its \<^verbatim>\<open>assetId\<close>.
\<close>

theorem addPieceFromAsset_defaults:
  "pieces (addPieceFromAsset (Some (w, h)) new_id asset s) =
     pieces s @ [last (pieces (addPieceFromAsset (Some (w, h)) new_id asset s))] \<and>
   hue (last (pieces (addPieceFromAsset (Some (w, h)) new_id asset s))) = 0 \<and>
   saturate (last (pieces (addPieceFromAsset (Some (w, h)) new_id asset s))) = 100 \<and>
   brightness (last (pieces (addPieceFromAsset (Some (w, h)) new_id asset s))) = 100 \<and>
   contrast (last (pieces (addPieceFromAsset (Some (w, h)) new_id asset s))) = 100 \<and>
   opacity (last (pieces (addPieceFromAsset (Some (w, h)) new_id asset s))) = 100 \<and>
   assetId (last (pieces (addPieceFromAsset (Some (w, h)) new_id asset s))) = id_asset asset"
  by (simp add: addPieceFromAsset_def Let_def)

theorem addPieceFromAsset_defaults_witness:
  "hue (last (pieces placed1)) = 0 \<and>
   saturate (last (pieces placed1)) = 100 \<and>
   brightness (last (pieces placed1)) = 100 \<and>
   contrast (last (pieces placed1)) = 100 \<and>
   opacity (last (pieces placed1)) = 100 \<and>
   assetId (last (pieces placed1)) = ''a1''"
  using addPieceFromAsset_defaults [of 800 600 "''p1''" asset1 initial]
  by (simp add: placed1_def canvas1_def asset1_def)

subsection \<open>Stacking order\<close>

lemma find_map_keep:
  "(\<And>q. P (f q) = P q) \<Longrightarrow> find P (map f ps) = map_option f (find P ps)"
  by (induction ps) simp_all

lemma selectedPiece_map:
  assumes sel: "selectedPiece s = Some p"
    and ids: "\<And>q. id_piece (f q) = id_piece q"
    and s': "selectedId s' = selectedId s" "pieces s' = map f (pieces s)"
  shows "selectedPiece s' = Some (f p)"
proof -
  from sel have i: "selectedId s = Some (id_piece p)"
    by (simp add: selectedPiece_SomeD)
  have "find (\<lambda>q. id_piece q = id_piece p) (map f (pieces s)) =
        map_option f (find (\<lambda>q. id_piece q = id_piece p) (pieces s))"
    by (rule find_map_keep) (simp add: ids)
  with selectedPiece_find [OF sel] show ?thesis
    by (simp add: selectedPiece_def s' i)
qed

lemma bringForward_selected:
  assumes "selectedPiece s = Some p"
  shows "pieces (bringForward s) =
           map (\<lambda>q. if id_piece q = id_piece p then q\<lparr>z := z q + 1\<rparr> else q) (pieces s)"
    and "selectedId (bringForward s) = selectedId s"
    and "selectedPiece (bringForward s) = Some (p\<lparr>z := z p + 1\<rparr>)"
proof -
  show a: "pieces (bringForward s) =
           map (\<lambda>q. if id_piece q = id_piece p then q\<lparr>z := z q + 1\<rparr> else q) (pieces s)"
    and b: "selectedId (bringForward s) = selectedId s"
    using assms by (simp_all add: bringForward_def pushHistory_eq)
  from selectedPiece_map [OF assms _ b a]
  show "selectedPiece (bringForward s) = Some (p\<lparr>z := z p + 1\<rparr>)"
    by simp
qed

lemma sendBackward_selected:
  assumes "selectedPiece s = Some p"
  shows "pieces (sendBackward s) =
           map (\<lambda>q. if id_piece q = id_piece p then q\<lparr>z := max 0 (z q - 1)\<rparr> else q)
             (pieces s)"
    and "selectedId (sendBackward s) = selectedId s"
    and "selectedPiece (sendBackward s) = Some (p\<lparr>z := max 0 (z p - 1)\<rparr>)"
proof -
  show a: "pieces (sendBackward s) =
           map (\<lambda>q. if id_piece q = id_piece p then q\<lparr>z := max 0 (z q - 1)\<rparr> else q)
             (pieces s)"
    and b: "selectedId (sendBackward s) = selectedId s"
    using assms by (simp_all add: sendBackward_def pushHistory_eq)
  from selectedPiece_map [OF assms _ b a]
  show "selectedPiece (sendBackward s) = Some (p\<lparr>z := max 0 (z p - 1)\<rparr>)"
    by simp
qed

text \<open>
  C6. Let \<open>p\<close> be the selected piece. After bring-forward the selected piece is \<open>p\<close> with
  z increased by 1; after send-backward it is \<open>p\<close> with z set to \<open>max 0 (z - 1)\<close>, so no
  piece carrying the selected identifier has a negative z then. At z = 0 send-backward
  leaves the piece as it is, and from any z that is not negative (z = 2 for one)
  bring-forward followed by send-backward gives the piece back unchanged.
\<close>

theorem z_order_steps:
  assumes "selectedPiece s = Some p"
  shows "selectedPiece (bringForward s) = Some (p\<lparr>z := z p + 1\<rparr>) \<and>
         selectedPiece (sendBackward s) = Some (p\<lparr>z := max 0 (z p - 1)\<rparr>) \<and>
         (\<forall>q \<in> set (pieces (sendBackward s)). id_piece q = id_piece p \<longrightarrow> 0 \<le> z q) \<and>
         (z p = 0 \<longrightarrow> selectedPiece (sendBackward s) = Some p) \<and>
         (0 \<le> z p \<longrightarrow> selectedPiece (sendBackward (bringForward s)) = Some p)"
proof -
  note fw = bringForward_selected [OF assms]
  note bw = sendBackward_selected [OF assms]
  have "\<forall>q \<in> set (pieces (sendBackward s)). id_piece q = id_piece p \<longrightarrow> 0 \<le> z q"
    by (auto simp: bw(1))
  moreover have "z p = 0 \<longrightarrow> selectedPiece (sendBackward s) = Some p"
    by (simp add: bw(3))
  moreover have "0 \<le> z p \<longrightarrow> selectedPiece (sendBackward (bringForward s)) = Some p"
    using sendBackward_selected(3) [OF fw(3)] by simp
  ultimately show ?thesis using fw(3) bw(3) by blast
qed

theorem z_order_steps_witness:
  "selectedPiece placed2 = Some piece2 \<and> z piece2 = 2 \<and>
   selectedPiece (bringForward placed2) = Some (piece2\<lparr>z := 3\<rparr>) \<and>
   selectedPiece (sendBackward (bringForward placed2)) = Some piece2 \<and>
   selectedPiece (sendBackward placed2) = Some (piece2\<lparr>z := 1\<rparr>) \<and>
   selectedPiece (sendBackward (sendBackward placed2)) = Some (piece2\<lparr>z := 0\<rparr>) \<and>
   selectedPiece (sendBackward (sendBackward (sendBackward placed2))) = Some (piece2\<lparr>z := 0\<rparr>) \<and>
   piece2\<lparr>z := 0\<rparr> \<in> set (pieces (sendBackward (sendBackward (sendBackward placed2)))) \<and>
   0 \<le> z (piece2\<lparr>z := 0\<rparr>)"
proof -
  have sel: "selectedPiece placed2 = Some piece2"
    by (simp add: selectedPiece_def placed2_eval piece1_def piece2_def)
  have z2: "z piece2 = 2" "id_piece piece2 = ''p2''"
    by (simp_all add: piece2_def)
  from z_order_steps [OF sel] z2
  have one: "selectedPiece (bringForward placed2) = Some (piece2\<lparr>z := 3\<rparr>)"
    "selectedPiece (sendBackward (bringForward placed2)) = Some piece2"
    "selectedPiece (sendBackward placed2) = Some (piece2\<lparr>z := 1\<rparr>)"
    by simp_all
  from z_order_steps [OF one(3)]
  have two: "selectedPiece (sendBackward (sendBackward placed2)) = Some (piece2\<lparr>z := 0\<rparr>)"
    by (simp add: z2)
  from z_order_steps [OF two]
  have three:
    "selectedPiece (sendBackward (sendBackward (sendBackward placed2))) = Some (piece2\<lparr>z := 0\<rparr>)"
    "\<forall>q \<in> set (pieces (sendBackward (sendBackward (sendBackward placed2)))).
      id_piece q = ''p2'' \<longrightarrow> 0 \<le> z q"
    by (simp_all add: z2)
  from selectedPiece_SomeD [OF three(1)]
  have mem: "piece2\<lparr>z := 0\<rparr> \<in> set (pieces (sendBackward (sendBackward (sendBackward placed2))))"
    by simp
  with three(2) have "0 \<le> z (piece2\<lparr>z := 0\<rparr>)"
    by (simp add: z2)
  with sel z2 one two three(1) mem show ?thesis
    by simp
qed

subsection \<open>Snapping to the grid\<close>

lemma Math_round_eq: "Math_round v = round v"
  by (simp add: Math_round_def round_def)

lemma snap_on_grid: "snap True (of_int k * 24) = of_int k * 24"
  by (simp add: snap_def gridSize_def Math_round_eq)

lemma onDragStop_snaps:
  "onDragStop dx dy s = updateSelected [F_x (snap (snapEnabled s) dx), F_y (snap (snapEnabled s) dy)] s"
  by (simp add: onDragStop_def)

text \<open>
  C7. With snapping disabled the transform returns its argument. With snapping enabled
  the result is an integer multiple of 24 and no multiple of 24 is nearer to the
  argument. In both modes, applying the transform to its own result changes nothing.
\<close>

theorem snap_grid:
  "snap False v = v \<and>
   (\<exists>k::int. snap True v = of_int k * 24) \<and>
   (\<forall>k::int. \<bar>snap True v - v\<bar> \<le> \<bar>of_int k * 24 - v\<bar>) \<and>
   snap e (snap e v) = snap e v"
proof -
  let ?r = "round (v / 24)"
  have on: "snap True v = of_int ?r * 24"
    by (simp add: snap_def gridSize_def Math_round_eq)
  have near: "\<bar>snap True v - v\<bar> \<le> \<bar>of_int k * 24 - v\<bar>" for k :: int
  proof -
    have "\<bar>v / 24 - of_int ?r\<bar> \<le> \<bar>v / 24 - of_int k\<bar>"
      by (rule round_diff_minimal)
    then have "24 * \<bar>v / 24 - of_int ?r\<bar> \<le> 24 * \<bar>v / 24 - of_int k\<bar>"
      by simp
    moreover have "24 * \<bar>v / 24 - of_int j\<bar> = \<bar>of_int j * 24 - v\<bar>" for j :: int
      by (simp add: abs_if field_simps)
    ultimately show ?thesis
      by (simp add: on)
  qed
  have idem: "snap e (snap e v) = snap e v"
  proof (cases e)
    case True
    then show ?thesis by (simp add: on snap_on_grid)
  next
    case False
    then show ?thesis by (simp add: snap_def)
  qed
  have "snap False v = v"
    by (simp add: snap_def)
  with on near idem show ?thesis by blast
qed

theorem snap_grid_witness:
  "snap False 100 = 100 \<and>
   snap True 100 = 96 \<and>
   snap True 12 = 24 \<and>
   \<bar>snap True 100 - 100\<bar> \<le> \<bar>of_int 5 * 24 - 100\<bar> \<and>
   snap True (snap True 100) = snap True 100"
proof -
  have "snap True 100 = 96" "snap True 12 = 24"
    by (simp_all add: snap_def gridSize_def Math_round_def)
  with snap_grid [of 100 True] show ?thesis
    by simp
qed

subsection \<open>Loading\<close>

text \<open>
  The other two ways to fail: an empty stored text counts as absent, and a stored
  \<^verbatim>\<open>null\<close> makes the read of \<^verbatim>\<open>data.assets\<close> throw before any cell is set.
\<close>

lemma loadProject_empty_or_null:
  assumes "localStorage PROJECT_KEY = Some raw" and "raw = [] \<or> JSON_parse raw = Null"
  shows "fst (loadProject JSON_parse localStorage s) = s"
    and "snd (loadProject JSON_parse localStorage s) \<noteq> None"
  using assms by (auto simp: loadProject_def)

text \<open>
  C8. When the store has no entry under the project key, and when the stored text makes
  \<^verbatim>\<open>JSON.parse\<close> throw, \<^verbatim>\<open>loadProject\<close> raises an alert and returns the state
  it was given. When the text parses to an object with assets and pieces, these replace
  the assets and the pieces of the state, the selection is cleared, the two stacks are
  kept and no alert is raised.
\<close>

theorem loadProject_atomic:
  "(localStorage PROJECT_KEY = None \<longrightarrow>
      loadProject JSON_parse localStorage s = (s, Some ''Geen opgeslagen project gevonden.'')) \<and>
   (localStorage PROJECT_KEY = Some raw \<and> JSON_parse raw = Throws \<longrightarrow>
      (\<exists>msg. loadProject JSON_parse localStorage s = (s, Some msg))) \<and>
   (localStorage PROJECT_KEY = Some raw \<and> raw \<noteq> [] \<and>
    JSON_parse raw = Value (Some stored_assets) (Some stored_pieces) \<longrightarrow>
      loadProject JSON_parse localStorage s =
        (s\<lparr>assets := stored_assets, pieces := stored_pieces, selectedId := None\<rparr>, None))"
  by (simp add: loadProject_def)

theorem loadProject_atomic_witness:
  "loadProject parse1 Map.empty placed2 = (placed2, Some ''Geen opgeslagen project gevonden.'') \<and>
   (\<exists>msg. loadProject parse1 store_broken placed2 = (placed2, Some msg)) \<and>
   loadProject parse1 store_good placed2 =
     (placed2\<lparr>assets := [asset1], pieces := [], selectedId := None\<rparr>, None)"
proof -
  have broken: "store_broken PROJECT_KEY = Some ''{\"assets\":''"
    "parse1 ''{\"assets\":'' = Throws"
    by (simp_all add: store_broken_def parse1_def stored_text_def)
  have good: "store_good PROJECT_KEY = Some stored_text" "stored_text \<noteq> []"
    "parse1 stored_text = Value (Some [asset1]) (Some [])"
    by (simp_all add: store_good_def parse1_def stored_text_def)
  from loadProject_atomic [where localStorage = Map.empty and JSON_parse = parse1 and s = placed2]
       loadProject_atomic [where localStorage = store_broken and JSON_parse = parse1
         and s = placed2 and raw = "''{\"assets\":''"]
       loadProject_atomic [where localStorage = store_good and JSON_parse = parse1
         and s = placed2 and raw = stored_text and stored_assets = "[asset1]"
         and stored_pieces = "[]"]
       broken good
  show ?thesis
    by simp
qed

subsection \<open>Selection\<close>

lemma selectedPiece_dangling:
  "(\<And>i. selectedId s = Some i \<Longrightarrow> i \<notin> id_piece ` set (pieces s)) \<Longrightarrow> selectedPiece s = None"
  by (cases "selectedId s") (simp_all add: selectedPiece_def find_None_dangling)

text \<open>
  A snapshot holds assets and pieces only, and \<open>undo\<close> and \<open>redo\<close> leave the stored
  selection identifier as it is. When that identifier is carried by no piece of the
  document, the selected-piece lookup yields nothing, and the handlers that go through
  the lookup (duplicate, bring forward, send backward, update) return the state
  unchanged.
\<close>

lemma selection_kept_and_lookup_dangling:
  "selectedId (undo s) = selectedId s \<and>
   selectedId (redo s) = selectedId s \<and>
   ((\<forall>i. selectedId s = Some i \<longrightarrow> i \<notin> id_piece ` set (pieces s)) \<longrightarrow>
      selectedPiece s = None \<and>
      duplicateSelected new_id s = s \<and>
      bringForward s = s \<and>
      sendBackward s = s \<and>
      updateSelected patch s = s)"
proof -
  have "selectedId (undo s) = selectedId s" "selectedId (redo s) = selectedId s"
    by (simp_all add: undo_eq redo_eq Let_def)
  moreover
  { assume "\<forall>i. selectedId s = Some i \<longrightarrow> i \<notin> id_piece ` set (pieces s)"
    then have none: "selectedPiece s = None"
      by (intro selectedPiece_dangling) simp
    then have "selectedPiece s = None \<and> duplicateSelected new_id s = s \<and> bringForward s = s \<and>
      sendBackward s = s \<and> updateSelected patch s = s"
      by (simp add: duplicateSelected_eq bringForward_def sendBackward_def updateSelected_def) }
  ultimately show ?thesis by blast
qed

text \<open>
  \<^verbatim>\<open>removeSelected\<close> is the exception: it tests the stored identifier itself, not
  the lookup. With an identifier that no piece carries it removes nothing, but records a
  history entry, which empties the future stack, and clears the selection.
\<close>

lemma removeSelected_dangling:
  assumes "selectedId s = Some i" and "i \<noteq> []" and "i \<notin> id_piece ` set (pieces s)"
  shows "removeSelected s = (pushHistory s)\<lparr>selectedId := None\<rparr>"
proof -
  from assms(3) have "filter (\<lambda>p. id_piece p \<noteq> i) (pieces s) = pieces s"
    by (auto simp: filter_id_conv)
  with assms(1,2) show ?thesis
    by (simp add: removeSelected_eq pushHistory_eq)
qed

lemma undone1_eval:
  "undone1 =
     \<lparr>live = \<lparr>assets = [], pieces = [], selectedId = Some ''p1'', history = [],
               future = [\<lparr>assets = [], pieces = [piece1]\<rparr>], snapEnabled = False\<rparr>,
      listener = \<lparr>assets = [], pieces = [], selectedId = Some ''p1'', history = [],
                   future = [\<lparr>assets = [], pieces = [piece1]\<rparr>], snapEnabled = False\<rparr>\<rparr>"
  by (simp add: undone1_def mounted_def initial_def canvas1_def asset1_def piece1_def ctrlZ_def
      listener_defs addPieceFromAsset_def pushHistory_eq snapshot_def selectedPiece_def Let_def)

text \<open>
  C9, at the input where the code leaves it. A piece is placed, which selects it, and
  Ctrl+Z is pressed: the document is empty again, the stored selection still names the
  piece, the selected-piece lookup yields nothing, and the placed piece waits on the
  future stack. Treated as no selection, a press of Delete would change nothing. Instead
  \<^verbatim>\<open>removeSelected\<close> records a history entry of the empty document and empties the
  future stack, so that the undone placement can no longer be redone.
\<close>

theorem delete_key_on_dangling_selection:
  "selectedId (live undone1) = Some ''p1'' \<and>
   pieces (live undone1) = [] \<and>
   selectedPiece (live undone1) = None \<and>
   history (live undone1) = [] \<and>
   future (live undone1) = [\<lparr>assets = [], pieces = [piece1]\<rparr>] \<and>
   history (live (fire (KeyDown deleteKey ''u2'') undone1)) = [\<lparr>assets = [], pieces = []\<rparr>] \<and>
   future (live (fire (KeyDown deleteKey ''u2'') undone1)) = [] \<and>
   selectedId (live (fire (KeyDown deleteKey ''u2'') undone1)) = None \<and>
   pieces (live (fires [KeyDown deleteKey ''u2'', KeyDown ctrlShiftZ ''u3''] undone1)) = []"
  by (simp add: undone1_eval listener_defs deleteKey_def ctrlShiftZ_def snapshot_def
      selectedPiece_def)

end
